theory Spec2Isabelle
  imports Complex_Main
begin

section \<open>The face capture component\<close>

text \<open>
  A model of \<^verbatim>\<open>FaceCaptureComponent\<close>: its React state, its refs, its three effects
  with their cleanups, the poll \<^verbatim>\<open>detectFaces\<close> and the handler \<^verbatim>\<open>handleCapture\<close>.
  JavaScript runs each callback to its end before the next one starts, so an execution is
  a list of events (a promise settles, the timer ticks, the user clicks, React unmounts
  the component), each handled by one function from state to state.
\<close>

subsection \<open>Numbers\<close>

text \<open>
  \<^verbatim>\<open>facePercentage\<close> is a JavaScript number. Division by zero does not fail there: it
  gives an infinity, or NaN for 0 / 0, and every comparison with NaN is false. Finite
  values are kept as exact reals (the rounding of doubles is not modelled).
\<close>

datatype jsnum = Fin real | PosInf | NegInf | NaN

fun js_div :: "real \<Rightarrow> real \<Rightarrow> jsnum" where
  "js_div a b =
     (if b = 0 then (if a = 0 then NaN else if 0 < a then PosInf else NegInf)
      else Fin (a / b))"

fun js_times :: "jsnum \<Rightarrow> real \<Rightarrow> jsnum" where
  "js_times (Fin x) c = Fin (x * c)"
| "js_times PosInf c = (if 0 < c then PosInf else if c < 0 then NegInf else NaN)"
| "js_times NegInf c = (if 0 < c then NegInf else if c < 0 then PosInf else NaN)"
| "js_times NaN c = NaN"

fun js_gt :: "jsnum \<Rightarrow> real \<Rightarrow> bool" where
  "js_gt (Fin x) c = (c < x)"
| "js_gt PosInf c = True"
| "js_gt NegInf c = False"
| "js_gt NaN c = False"

fun js_lt :: "jsnum \<Rightarrow> real \<Rightarrow> bool" where
  "js_lt (Fin x) c = (x < c)"
| "js_lt PosInf c = False"
| "js_lt NegInf c = True"
| "js_lt NaN c = False"

fun js_le :: "jsnum \<Rightarrow> real \<Rightarrow> bool" where
  "js_le (Fin x) c = (x \<le> c)"
| "js_le PosInf c = False"
| "js_le NegInf c = True"
| "js_le NaN c = False"

subsection \<open>Detection results and the quality label\<close>

text \<open>
  A face record as the loop body reads it: \<^verbatim>\<open>detection.detection.box\<close> of a record of
  \<^verbatim>\<open>resizedDetections\<close> (the library's \<^verbatim>\<open>resizeResults\<close> maps the records one by one,
  keeping their order and number). The age, the gender and the expressions are read by
  the loop body and never used.
\<close>

record box =
  width :: real
  height :: real

record detection =
  box :: box

text \<open>
  The values of \<^verbatim>\<open>faceQuality\<close>: \<open>NoQuality\<close> is the empty string of \<^verbatim>\<open>useState('')\<close>,
  the others are the labels "Good positioning", "Move closer to camera" and
  "Move back from camera".
\<close>

datatype quality = NoQuality | GoodPositioning | MoveCloser | MoveBack

definition facePercentage :: "box \<Rightarrow> nat \<Rightarrow> nat \<Rightarrow> jsnum" where
  "facePercentage b canvasWidth canvasHeight =
     (let faceArea = width b * height b;
          videoArea = real (canvasWidth * canvasHeight)
      in js_times (js_div faceArea videoArea) 100)"

definition qualityLabel :: "jsnum \<Rightarrow> quality" where
  "qualityLabel p =
     (if js_gt p 15 \<and> js_lt p 80 then GoodPositioning
      else if js_le p 15 then MoveCloser
      else MoveBack)"

subsection \<open>State\<close>

datatype track = Live | Ended

datatype effect =
    ConsoleLog string
  | ConsoleError string
  | Alert string
  | OnCapture string

text \<open>
  The first five fields are the \<^verbatim>\<open>useState\<close> cells, the next three the refs (\<open>videoRef\<close>
  and \<open>displayCanvasRef\<close> say whether \<^verbatim>\<open>.current\<close> is the element or null). \<open>srcObject\<close>,
  \<open>videoWidth\<close> and \<open>videoHeight\<close> belong to the video element, which outlives its ref in
  the closures that hold it; \<open>metadataPending\<close> says that the element has been given a
  source and its \<^verbatim>\<open>onloadedmetadata\<close> handler, and the event has not fired yet. The
  rest is the browser: the streams the camera has handed out (\<open>srcObject\<close> is an index
  into them), the interval timers that are running, the promises that have not settled
  (\<open>inflight\<close> counts the detection calls under way), the cleanup functions React holds,
  and what the component has printed, alerted and handed to \<^verbatim>\<open>onCapture\<close>.
  \<open>cameraRequests\<close> counts the calls of \<^verbatim>\<open>getUserMedia\<close> and \<open>timersStarted\<close> those of
  \<^verbatim>\<open>setInterval\<close>; the latter also numbers the timers from 1, as browsers do.
\<close>

record component =
  faceDetected :: bool
  facesCount :: nat
  modelsLoaded :: bool
  isStreaming :: bool
  faceQuality :: quality
  detectionIntervalRef :: "nat option"
  videoRef :: bool
  displayCanvasRef :: bool
  srcObject :: "nat option"
  metadataPending :: bool
  videoWidth :: nat
  videoHeight :: nat
  mounted :: bool
  loadPending :: bool
  cameraPending :: nat
  cameraRequests :: nat
  streams :: "track list list"
  intervals :: "nat list"
  timersStarted :: nat
  inflight :: nat
  cameraCleanup :: bool
  detectionCleanup :: bool
  outputs :: "effect list"

definition initial :: component where
  "initial =
     \<lparr> faceDetected = False, facesCount = 0, modelsLoaded = False, isStreaming = False,
       faceQuality = NoQuality, detectionIntervalRef = None, videoRef = False,
       displayCanvasRef = False, srcObject = None, metadataPending = False,
       videoWidth = 0, videoHeight = 0, mounted = False, loadPending = False,
       cameraPending = 0, cameraRequests = 0, streams = [], intervals = [],
       timersStarted = 0, inflight = 0, cameraCleanup = False, detectionCleanup = False,
       outputs = [] \<rparr>"

text \<open>A state setter of an unmounted component does nothing.\<close>

definition setFaceDetected :: "bool \<Rightarrow> component \<Rightarrow> component" where
  "setFaceDetected v s = (if mounted s then s\<lparr>faceDetected := v\<rparr> else s)"

definition setFacesCount :: "nat \<Rightarrow> component \<Rightarrow> component" where
  "setFacesCount v s = (if mounted s then s\<lparr>facesCount := v\<rparr> else s)"

definition setModelsLoaded :: "bool \<Rightarrow> component \<Rightarrow> component" where
  "setModelsLoaded v s = (if mounted s then s\<lparr>modelsLoaded := v\<rparr> else s)"

definition setIsStreaming :: "bool \<Rightarrow> component \<Rightarrow> component" where
  "setIsStreaming v s = (if mounted s then s\<lparr>isStreaming := v\<rparr> else s)"

definition setFaceQuality :: "quality \<Rightarrow> component \<Rightarrow> component" where
  "setFaceQuality v s = (if mounted s then s\<lparr>faceQuality := v\<rparr> else s)"

definition emit :: "effect \<Rightarrow> component \<Rightarrow> component" where
  "emit x s = s\<lparr>outputs := outputs s @ [x]\<rparr>"

subsection \<open>The effects\<close>

text \<open>
  The first effect (no dependencies) calls \<^verbatim>\<open>loadModels\<close>, which awaits the five model
  loads together; the two functions after it are what follows the \<^verbatim>\<open>await\<close>.
\<close>

definition loadModelsEffect :: "component \<Rightarrow> component" where
  "loadModelsEffect s = s\<lparr>loadPending := True\<rparr>"

definition loadModels_resolved :: "component \<Rightarrow> component" where
  "loadModels_resolved s =
     emit (ConsoleLog ''All face detection models loaded'')
       (setModelsLoaded True (s\<lparr>loadPending := False\<rparr>))"

definition loadModels_rejected :: "component \<Rightarrow> component" where
  "loadModels_rejected s =
     emit (Alert ''Failed to load face detection models. Please refresh the page.'')
       (emit (ConsoleError ''Error loading models:'') (s\<lparr>loadPending := False\<rparr>))"

text \<open>
  The second effect (dependency \<^verbatim>\<open>modelsLoaded\<close>) returns at once, with no cleanup, while
  the models are not loaded; otherwise it calls \<^verbatim>\<open>startCamera\<close>, which asks for the
  camera, and returns its cleanup. An effect sees the state of the render it belongs to:
  that value of \<^verbatim>\<open>modelsLoaded\<close> is the first argument.
\<close>

definition cameraEffect :: "bool \<Rightarrow> component \<Rightarrow> component" where
  "cameraEffect rModelsLoaded s =
     (if \<not> rModelsLoaded then s\<lparr>cameraCleanup := False\<rparr>
      else s\<lparr>cameraRequests := Suc (cameraRequests s),
             cameraPending := Suc (cameraPending s),
             cameraCleanup := True\<rparr>)"

text \<open>
  \<^verbatim>\<open>getUserMedia\<close> resolves with a stream of \<open>n\<close> live tracks. The stream is kept by the
  video element if the ref still holds one, and by nothing otherwise.
\<close>

definition startCamera_resolved :: "nat \<Rightarrow> component \<Rightarrow> component" where
  "startCamera_resolved n s =
     (let h = length (streams s);
          s1 = s\<lparr>cameraPending := cameraPending s - 1, streams := streams s @ [replicate n Live]\<rparr>
      in if videoRef s1 then s1\<lparr>srcObject := Some h, metadataPending := True\<rparr> else s1)"

definition startCamera_rejected :: "component \<Rightarrow> component" where
  "startCamera_rejected s =
     emit (Alert ''Please allow camera access to use this app.'')
       (emit (ConsoleError ''Camera access error:'') (s\<lparr>cameraPending := cameraPending s - 1\<rparr>))"

text \<open>
  The \<^verbatim>\<open>onloadedmetadata\<close> handler: \<^verbatim>\<open>videoRef.current.play()\<close> throws when the ref is
  null, and then \<^verbatim>\<open>setIsStreaming\<close> is not reached.
\<close>

definition onloadedmetadata :: "nat \<Rightarrow> nat \<Rightarrow> component \<Rightarrow> component" where
  "onloadedmetadata w h s =
     (let s1 = s\<lparr>metadataPending := False, videoWidth := w, videoHeight := h\<rparr>
      in if videoRef s1 then setIsStreaming True s1 else s1)"

definition stopTracks :: "nat \<Rightarrow> track list list \<Rightarrow> track list list" where
  "stopTracks h ss = (if h < length ss then ss[h := map (\<lambda>t. Ended) (ss ! h)] else ss)"

definition cameraEffectCleanup :: "component \<Rightarrow> component" where
  "cameraEffectCleanup s =
     (if \<not> videoRef s then s
      else case srcObject s of
             None \<Rightarrow> s
           | Some h \<Rightarrow> setIsStreaming False (s\<lparr>streams := stopTracks h (streams s)\<rparr>))"

text \<open>
  The third effect (dependencies \<^verbatim>\<open>modelsLoaded\<close> and \<^verbatim>\<open>isStreaming\<close>) starts the
  100 ms timer once both hold. Its cleanup clears the timer the ref names, if the ref is
  truthy.
\<close>

definition detectionEffect :: "bool \<Rightarrow> bool \<Rightarrow> component \<Rightarrow> component" where
  "detectionEffect rModelsLoaded rIsStreaming s =
     (if \<not> rModelsLoaded \<or> \<not> rIsStreaming then s\<lparr>detectionCleanup := False\<rparr>
      else let i = Suc (timersStarted s)
           in s\<lparr>detectionIntervalRef := Some i, intervals := intervals s @ [i],
                timersStarted := i, detectionCleanup := True\<rparr>)"

definition detectionEffectCleanup :: "component \<Rightarrow> component" where
  "detectionEffectCleanup s =
     (case detectionIntervalRef s of
        None \<Rightarrow> s
      | Some i \<Rightarrow> if i = 0 then s else s\<lparr>intervals := removeAll i (intervals s)\<rparr>)"

subsection \<open>The poll\<close>

text \<open>
  \<^verbatim>\<open>detectFaces\<close> up to its \<^verbatim>\<open>await\<close>: it returns at once when a ref is null, and
  otherwise starts a detection call. Nothing records that a call is under way.
\<close>

definition detectFaces_begin :: "component \<Rightarrow> component" where
  "detectFaces_begin s =
     (if \<not> videoRef s \<or> \<not> displayCanvasRef s then s
      else s\<lparr>inflight := Suc (inflight s)\<rparr>)"

text \<open>
  What the awaited call gives: it rejects, or it resolves with the face records. The
  drawing calls between the \<^verbatim>\<open>await\<close> and the setters are taken to return normally.
\<close>

datatype poll_result = Rejected | Resolved "detection list"

definition detectFaces_resume :: "poll_result \<Rightarrow> component \<Rightarrow> component" where
  "detectFaces_resume r s =
     (case r of
        Rejected \<Rightarrow> emit (ConsoleError ''Detection error:'') s
      | Resolved detections \<Rightarrow>
          (let canvasWidth = videoWidth s;
               canvasHeight = videoHeight s;
               s1 = (if length detections > 0
                     then foldl (\<lambda>st d. setFaceQuality
                                   (qualityLabel (facePercentage (box d) canvasWidth canvasHeight)) st)
                            s detections
                     else s)
           in setFaceDetected (length detections > 0) (setFacesCount (length detections) s1)))"

subsection \<open>Capture\<close>

text \<open>
  What drawing the frame and \<^verbatim>\<open>toDataURL\<close> give: an exception, or the base64 image.
  The flag says whether the caller's \<^verbatim>\<open>onCapture\<close> throws; it is called inside the
  \<^verbatim>\<open>try\<close>, so the \<^verbatim>\<open>catch\<close> takes that exception too.
\<close>

datatype encoded = EncodeThrows | Encoded string

definition handleCapture :: "encoded \<Rightarrow> bool \<Rightarrow> component \<Rightarrow> component" where
  "handleCapture enc onCaptureThrows s =
     (if \<not> faceDetected s then emit (Alert ''Please face the camera. No face detected!'') s
      else if \<not> videoRef s then s
      else case enc of
             EncodeThrows \<Rightarrow>
               emit (Alert ''Failed to capture image'') (emit (ConsoleError ''Capture error:'') s)
           | Encoded base64Image \<Rightarrow>
               (let s1 = emit (OnCapture base64Image)
                           (emit (ConsoleLog ''Face captured successfully'') s)
                in if onCaptureThrows
                   then emit (Alert ''Failed to capture image'')
                          (emit (ConsoleError ''Capture error:'') s1)
                   else s1))"

text \<open>The images handed to \<^verbatim>\<open>onCapture\<close>, in order.\<close>

fun captured :: "effect list \<Rightarrow> string list" where
  "captured [] = []"
| "captured (OnCapture img # xs) = img # captured xs"
| "captured (x # xs) = captured xs"

subsection \<open>Rendering, mounting and unmounting\<close>

definition runCameraCleanup :: "component \<Rightarrow> component" where
  "runCameraCleanup s = (if cameraCleanup s then cameraEffectCleanup s else s)"

definition runDetectionCleanup :: "component \<Rightarrow> component" where
  "runDetectionCleanup s = (if detectionCleanup s then detectionEffectCleanup s else s)"

text \<open>
  After a render React attaches the refs of the elements that appeared (the video and
  the canvas are rendered once \<^verbatim>\<open>modelsLoaded\<close> holds), then runs the cleanups of the
  effects whose dependencies changed since the previous render, then those effects.
\<close>

definition commit :: "component \<Rightarrow> component \<Rightarrow> component" where
  "commit prev s =
     (if \<not> mounted s then s
      else let cameraDeps = (modelsLoaded prev \<noteq> modelsLoaded s);
               detectionDeps = (modelsLoaded prev \<noteq> modelsLoaded s \<or> isStreaming prev \<noteq> isStreaming s);
               s1 = (if \<not> modelsLoaded prev \<and> modelsLoaded s
                     then s\<lparr>videoRef := True, displayCanvasRef := True\<rparr> else s);
               s2 = (if cameraDeps then runCameraCleanup s1 else s1);
               s3 = (if detectionDeps then runDetectionCleanup s2 else s2);
               s4 = (if cameraDeps then cameraEffect (modelsLoaded s) s3 else s3)
           in if detectionDeps then detectionEffect (modelsLoaded s) (isStreaming s) s4 else s4)"

text \<open>
  A cleanup may set state (\<^verbatim>\<open>setIsStreaming(false)\<close>), which makes React render once
  more; that second commit compares with what the first one rendered.
\<close>

definition rerender :: "component \<Rightarrow> component \<Rightarrow> component" where
  "rerender prev s = (let s1 = commit prev s in commit s s1)"

text \<open>The first render shows the loading state (no video, no canvas) and runs every effect.\<close>

definition mount :: "component \<Rightarrow> component" where
  "mount s =
     detectionEffect (modelsLoaded s) (isStreaming s)
       (cameraEffect (modelsLoaded s) (loadModelsEffect (s\<lparr>mounted := True\<rparr>)))"

text \<open>
  Teardown is what React does with the cleanups it holds, in the order of the effects.
  On unmount it also sets the refs of the removed elements to null: before running the
  cleanups from React 17 on, after them in earlier versions.
\<close>

definition teardown :: "component \<Rightarrow> component" where
  "teardown s = runDetectionCleanup (runCameraCleanup s)"

definition detachRefs :: "component \<Rightarrow> component" where
  "detachRefs s = s\<lparr>videoRef := False, displayCanvasRef := False\<rparr>"

datatype unmount_order = CleanupThenDetach | DetachThenCleanup

definition unmount :: "unmount_order \<Rightarrow> component \<Rightarrow> component" where
  "unmount ord s =
     (let s1 = s\<lparr>mounted := False\<rparr>
      in case ord of
           CleanupThenDetach \<Rightarrow> detachRefs (teardown s1)
         | DetachThenCleanup \<Rightarrow> teardown (detachRefs s1))"

subsection \<open>Executions\<close>

text \<open>
  An event is handled only when the browser can deliver it: a promise settles once, a
  timer ticks while it is running, a component unmounts once.
\<close>

datatype event =
    ModelsResolve
  | ModelsReject
  | StreamResolve nat
  | StreamReject
  | LoadedMetadata nat nat
  | Tick nat
  | DetectionSettles poll_result
  | Capture encoded bool
  | Unmount unmount_order

fun handle :: "event \<Rightarrow> component \<Rightarrow> component" where
  "handle ModelsResolve s = (if loadPending s then loadModels_resolved s else s)"
| "handle ModelsReject s = (if loadPending s then loadModels_rejected s else s)"
| "handle (StreamResolve n) s = (if 0 < cameraPending s then startCamera_resolved n s else s)"
| "handle StreamReject s = (if 0 < cameraPending s then startCamera_rejected s else s)"
| "handle (LoadedMetadata w h) s = (if metadataPending s then onloadedmetadata w h s else s)"
| "handle (Tick i) s = (if i \<in> set (intervals s) then detectFaces_begin s else s)"
| "handle (DetectionSettles r) s =
     (if 0 < inflight s then detectFaces_resume r (s\<lparr>inflight := inflight s - 1\<rparr>) else s)"
| "handle (Capture enc onCaptureThrows) s = handleCapture enc onCaptureThrows s"
| "handle (Unmount ord) s = (if mounted s then unmount ord s else s)"

definition step :: "event \<Rightarrow> component \<Rightarrow> component" where
  "step e s = rerender s (handle e s)"

definition run :: "event list \<Rightarrow> component \<Rightarrow> component" where
  "run es s = foldl (\<lambda>st e. step e st) s es"

subsection \<open>Shapes of reachable states\<close>

text \<open>
  What holds of every state an execution reaches: at most one camera request is pending;
  the cleanups React holds are those of the last effect runs; streaming needs the models
  and a stream whose metadata has arrived; no camera is requested before the models are
  loaded and no timer is started before streaming.
\<close>

definition setupInv :: "component \<Rightarrow> bool" where
  "setupInv s =
     (cameraPending s \<le> 1 \<and>
      cameraCleanup s = modelsLoaded s \<and>
      detectionCleanup s = (modelsLoaded s \<and> isStreaming s) \<and>
      (isStreaming s \<longrightarrow> modelsLoaded s \<and> cameraPending s = 0 \<and> \<not> metadataPending s) \<and>
      (metadataPending s \<longrightarrow> modelsLoaded s \<and> cameraPending s = 0) \<and>
      (\<not> modelsLoaded s \<longrightarrow> cameraPending s = 0 \<and> cameraRequests s = 0) \<and>
      (\<not> isStreaming s \<longrightarrow> timersStarted s = 0 \<and> intervals s = []) \<and>
      (loadPending s \<longrightarrow> \<not> modelsLoaded s))"

text \<open>The state after the model load has failed: nothing is pending and nothing has started.\<close>

definition loadFailed :: "component \<Rightarrow> bool" where
  "loadFailed s =
     (\<not> loadPending s \<and> \<not> modelsLoaded s \<and> cameraPending s = 0 \<and> cameraRequests s = 0 \<and>
      \<not> metadataPending s \<and> \<not> isStreaming s \<and> timersStarted s = 0 \<and> intervals s = [])"

text \<open>The state after the camera has been refused.\<close>

definition cameraDenied :: "component \<Rightarrow> bool" where
  "cameraDenied s =
     (modelsLoaded s \<and> cameraPending s = 0 \<and> \<not> metadataPending s \<and> \<not> isStreaming s \<and>
      timersStarted s = 0 \<and> intervals s = [])"

text \<open>An unmounted component with nothing pending: no event can reach its resources.\<close>

definition dead :: "component \<Rightarrow> bool" where
  "dead s =
     (\<not> mounted s \<and> \<not> loadPending s \<and> cameraPending s = 0 \<and> \<not> metadataPending s \<and>
      intervals s = [] \<and> inflight s = 0)"

subsection \<open>Sample executions\<close>

definition face :: "real \<Rightarrow> real \<Rightarrow> detection" where
  "face w h = \<lparr>box = \<lparr>width = w, height = h\<rparr>\<rparr>"

text \<open>The models load, the camera gives a stream of one track, a 640 x 480 video starts.\<close>

definition streaming :: component where
  "streaming = run [ModelsResolve, StreamResolve 1, LoadedMetadata 640 480] (mount initial)"

text \<open>Then the timer ticks once: one detection call is under way.\<close>

definition polling :: component where
  "polling = run [Tick 1] streaming"

section \<open>Basic facts\<close>


text \<open>The loop over the face records leaves the label of the last one.\<close>

lemma forEach_setFaceQuality:
  "foldl (\<lambda>st d. setFaceQuality (g d) st) s ds =
     (if mounted s \<and> ds \<noteq> [] then s\<lparr>faceQuality := g (last ds)\<rparr> else s)"
proof (induction ds arbitrary: s)
  case Nil
  show ?case by simp
next
  case (Cons d ds)
  have "foldl (\<lambda>st d. setFaceQuality (g d) st) s (d # ds) =
        foldl (\<lambda>st d. setFaceQuality (g d) st) (setFaceQuality (g d) s) ds"
    by simp
  also have "\<dots> = (if mounted (setFaceQuality (g d) s) \<and> ds \<noteq> []
                     then (setFaceQuality (g d) s)\<lparr>faceQuality := g (last ds)\<rparr>
                     else setFaceQuality (g d) s)"
    by (rule Cons.IH)
  also have "\<dots> = (if mounted s \<and> d # ds \<noteq> [] then s\<lparr>faceQuality := g (last (d # ds))\<rparr> else s)"
    by (simp add: setFaceQuality_def)
  finally show ?case .
qed

lemma detectFaces_resume_Resolved:
  "detectFaces_resume (Resolved ds) s =
     (if mounted s
      then s\<lparr>faceQuality := (if ds = [] then faceQuality s
                              else qualityLabel (facePercentage (box (last ds)) (videoWidth s) (videoHeight s))),
             facesCount := length ds, faceDetected := (ds \<noteq> [])\<rparr>
      else s)"
  by (simp add: detectFaces_resume_def forEach_setFaceQuality setFaceDetected_def setFacesCount_def)

lemma detectFaces_resume_Rejected:
  "detectFaces_resume Rejected s = s\<lparr>outputs := outputs s @ [ConsoleError ''Detection error:'']\<rparr>"
  by (simp add: detectFaces_resume_def emit_def)

lemma handleCapture_outputs:
  "handleCapture enc t s = s\<lparr>outputs := outputs (handleCapture enc t s)\<rparr>"
  by (simp add: handleCapture_def emit_def Let_def split: encoded.split)


subsection \<open>Steps, event by event\<close>

text \<open>Without a change of \<^verbatim>\<open>modelsLoaded\<close> or \<^verbatim>\<open>isStreaming\<close> no effect runs.\<close>

lemma commit_same_deps:
  "modelsLoaded s' = modelsLoaded s \<Longrightarrow> isStreaming s' = isStreaming s \<Longrightarrow> commit s s' = s'"
  by (simp add: commit_def)

lemma rerender_same_deps:
  "modelsLoaded s' = modelsLoaded s \<Longrightarrow> isStreaming s' = isStreaming s \<Longrightarrow> rerender s s' = s'"
  by (simp add: rerender_def commit_same_deps)

lemma rerender_unmounted: "\<not> mounted s' \<Longrightarrow> rerender s s' = s'"
  by (simp add: rerender_def commit_def)

lemma step_Tick:
  "step (Tick i) s =
     (if i \<in> set (intervals s) \<and> videoRef s \<and> displayCanvasRef s then s\<lparr>inflight := Suc (inflight s)\<rparr> else s)"
  by (simp add: step_def rerender_same_deps detectFaces_begin_def)

lemma step_DetectionSettles:
  "step (DetectionSettles r) s =
     (if 0 < inflight s then detectFaces_resume r (s\<lparr>inflight := inflight s - 1\<rparr>) else s)"
proof (cases r)
  case Rejected
  then show ?thesis by (simp add: step_def detectFaces_resume_def emit_def rerender_same_deps)
next
  case (Resolved ds)
  then show ?thesis by (simp add: step_def detectFaces_resume_Resolved rerender_same_deps)
qed

lemma step_Capture: "step (Capture enc t) s = handleCapture enc t s"
  by (simp add: step_def handleCapture_def emit_def Let_def rerender_same_deps split: encoded.split)

lemma step_Capture_outputs:
  "step (Capture enc t) s = s\<lparr>outputs := outputs (handleCapture enc t s)\<rparr>"
  using handleCapture_outputs [of enc t s] by (simp add: step_Capture)

lemma step_ModelsReject: "step ModelsReject s = (if loadPending s then loadModels_rejected s else s)"
  by (simp add: step_def rerender_same_deps loadModels_rejected_def emit_def)

lemma step_StreamResolve:
  "step (StreamResolve n) s = (if 0 < cameraPending s then startCamera_resolved n s else s)"
  by (simp add: step_def rerender_same_deps startCamera_resolved_def Let_def)

lemma step_StreamReject:
  "step StreamReject s = (if 0 < cameraPending s then startCamera_rejected s else s)"
  by (simp add: step_def rerender_same_deps startCamera_rejected_def emit_def)

lemma step_ModelsResolve_idle: "\<not> loadPending s \<Longrightarrow> step ModelsResolve s = s"
  by (simp add: step_def rerender_same_deps)

lemma step_ModelsResolve_unmounted:
  "loadPending s \<Longrightarrow> \<not> mounted s \<Longrightarrow>
     step ModelsResolve s =
       s\<lparr>loadPending := False, outputs := outputs s @ [ConsoleLog ''All face detection models loaded'']\<rparr>"
  by (simp add: step_def rerender_unmounted loadModels_resolved_def setModelsLoaded_def emit_def)

lemma step_ModelsResolve_loaded:
  "loadPending s \<Longrightarrow> modelsLoaded s \<Longrightarrow>
     step ModelsResolve s =
       s\<lparr>loadPending := False, outputs := outputs s @ [ConsoleLog ''All face detection models loaded'']\<rparr>"
  by (cases "mounted s")
    (simp_all add: step_def rerender_same_deps loadModels_resolved_def setModelsLoaded_def emit_def)

text \<open>
  The models arrive in a mounted component: the video and the canvas appear, the camera
  effect asks for the camera, the detection effect still returns early.
\<close>

lemma step_ModelsResolve_first:
  "loadPending s \<Longrightarrow> mounted s \<Longrightarrow> \<not> modelsLoaded s \<Longrightarrow> \<not> isStreaming s \<Longrightarrow>
   \<not> cameraCleanup s \<Longrightarrow> \<not> detectionCleanup s \<Longrightarrow>
     step ModelsResolve s =
       s\<lparr>loadPending := False, modelsLoaded := True,
         outputs := outputs s @ [ConsoleLog ''All face detection models loaded''],
         videoRef := True, displayCanvasRef := True,
         cameraRequests := Suc (cameraRequests s), cameraPending := Suc (cameraPending s),
         cameraCleanup := True, detectionCleanup := False\<rparr>"
  by (simp add: step_def rerender_def commit_def Let_def loadModels_resolved_def setModelsLoaded_def emit_def
      runCameraCleanup_def runDetectionCleanup_def cameraEffect_def detectionEffect_def)

lemma step_LoadedMetadata_idle: "\<not> metadataPending s \<Longrightarrow> step (LoadedMetadata w h) s = s"
  by (simp add: step_def rerender_same_deps)

lemma step_LoadedMetadata_no_video:
  "metadataPending s \<Longrightarrow> \<not> (mounted s \<and> videoRef s) \<Longrightarrow>
     step (LoadedMetadata w h) s = s\<lparr>metadataPending := False, videoWidth := w, videoHeight := h\<rparr>"
  by (auto simp add: step_def rerender_same_deps onloadedmetadata_def setIsStreaming_def Let_def)

text \<open>The metadata arrives: \<^verbatim>\<open>isStreaming\<close> becomes true and the detection effect starts the timer.\<close>

lemma step_LoadedMetadata_first:
  "metadataPending s \<Longrightarrow> mounted s \<Longrightarrow> videoRef s \<Longrightarrow> modelsLoaded s \<Longrightarrow> \<not> isStreaming s \<Longrightarrow>
   \<not> detectionCleanup s \<Longrightarrow>
     step (LoadedMetadata w h) s =
       s\<lparr>metadataPending := False, videoWidth := w, videoHeight := h, isStreaming := True,
         detectionIntervalRef := Some (Suc (timersStarted s)),
         intervals := intervals s @ [Suc (timersStarted s)],
         timersStarted := Suc (timersStarted s), detectionCleanup := True\<rparr>"
  by (simp add: step_def rerender_def commit_def Let_def onloadedmetadata_def setIsStreaming_def
      runDetectionCleanup_def detectionEffect_def)

lemma run_Nil: "run [] s = s"
  by (simp add: run_def)

lemma run_Cons: "run (e # es) s = run es (step e s)"
  by (simp add: run_def)

lemma run_append: "run (xs @ ys) s = run ys (run xs s)"
  by (simp add: run_def)

subsection \<open>What the cleanups touch\<close>

lemma runCameraCleanup_frame:
  "mounted (runCameraCleanup s) = mounted s"
  "modelsLoaded (runCameraCleanup s) = modelsLoaded s"
  "loadPending (runCameraCleanup s) = loadPending s"
  "cameraPending (runCameraCleanup s) = cameraPending s"
  "cameraRequests (runCameraCleanup s) = cameraRequests s"
  "metadataPending (runCameraCleanup s) = metadataPending s"
  "timersStarted (runCameraCleanup s) = timersStarted s"
  "inflight (runCameraCleanup s) = inflight s"
  "cameraCleanup (runCameraCleanup s) = cameraCleanup s"
  "detectionCleanup (runCameraCleanup s) = detectionCleanup s"
  "detectionIntervalRef (runCameraCleanup s) = detectionIntervalRef s"
  "intervals (runCameraCleanup s) = intervals s"
  "outputs (runCameraCleanup s) = outputs s"
  "srcObject (runCameraCleanup s) = srcObject s"
  "videoRef (runCameraCleanup s) = videoRef s"
  "displayCanvasRef (runCameraCleanup s) = displayCanvasRef s"
  by (simp_all add: runCameraCleanup_def cameraEffectCleanup_def setIsStreaming_def
        split: option.split)

lemma runCameraCleanup_isStreaming:
  "\<not> mounted s \<Longrightarrow> isStreaming (runCameraCleanup s) = isStreaming s"
  by (simp add: runCameraCleanup_def cameraEffectCleanup_def setIsStreaming_def
        split: option.split)

lemma runCameraCleanup_streams:
  "streams (runCameraCleanup s) =
     (if cameraCleanup s \<and> videoRef s
      then (case srcObject s of None \<Rightarrow> streams s | Some h \<Rightarrow> stopTracks h (streams s))
      else streams s)"
  by (simp add: runCameraCleanup_def cameraEffectCleanup_def setIsStreaming_def
        split: option.split)

lemma runDetectionCleanup_frame:
  "mounted (runDetectionCleanup s) = mounted s"
  "modelsLoaded (runDetectionCleanup s) = modelsLoaded s"
  "isStreaming (runDetectionCleanup s) = isStreaming s"
  "loadPending (runDetectionCleanup s) = loadPending s"
  "cameraPending (runDetectionCleanup s) = cameraPending s"
  "cameraRequests (runDetectionCleanup s) = cameraRequests s"
  "metadataPending (runDetectionCleanup s) = metadataPending s"
  "timersStarted (runDetectionCleanup s) = timersStarted s"
  "inflight (runDetectionCleanup s) = inflight s"
  "cameraCleanup (runDetectionCleanup s) = cameraCleanup s"
  "detectionCleanup (runDetectionCleanup s) = detectionCleanup s"
  "detectionIntervalRef (runDetectionCleanup s) = detectionIntervalRef s"
  "outputs (runDetectionCleanup s) = outputs s"
  "srcObject (runDetectionCleanup s) = srcObject s"
  "streams (runDetectionCleanup s) = streams s"
  "videoRef (runDetectionCleanup s) = videoRef s"
  "displayCanvasRef (runDetectionCleanup s) = displayCanvasRef s"
  by (simp_all add: runDetectionCleanup_def detectionEffectCleanup_def split: option.split)

lemma runDetectionCleanup_intervals:
  "intervals (runDetectionCleanup s) =
     (if detectionCleanup s
      then (case detectionIntervalRef s of
              None \<Rightarrow> intervals s
            | Some i \<Rightarrow> if i = 0 then intervals s else removeAll i (intervals s))
      else intervals s)"
  by (simp add: runDetectionCleanup_def detectionEffectCleanup_def split: option.split)

lemma unmount_frame:
  "mounted (unmount ord s) = False"
  "modelsLoaded (unmount ord s) = modelsLoaded s"
  "isStreaming (unmount ord s) = isStreaming s"
  "loadPending (unmount ord s) = loadPending s"
  "cameraPending (unmount ord s) = cameraPending s"
  "cameraRequests (unmount ord s) = cameraRequests s"
  "metadataPending (unmount ord s) = metadataPending s"
  "timersStarted (unmount ord s) = timersStarted s"
  "inflight (unmount ord s) = inflight s"
  "cameraCleanup (unmount ord s) = cameraCleanup s"
  "detectionCleanup (unmount ord s) = detectionCleanup s"
  "outputs (unmount ord s) = outputs s"
  "srcObject (unmount ord s) = srcObject s"
  by (cases ord; simp add: unmount_def teardown_def detachRefs_def Let_def
        runCameraCleanup_frame runCameraCleanup_isStreaming runDetectionCleanup_frame)+

lemma unmount_intervals: "set (intervals (unmount ord s)) \<subseteq> set (intervals s)"
  by (cases ord; simp add: unmount_def teardown_def detachRefs_def Let_def
        runCameraCleanup_frame runDetectionCleanup_frame runDetectionCleanup_intervals
        split: option.split)

lemma unmount_no_intervals: "intervals s = [] \<Longrightarrow> intervals (unmount ord s) = []"
  using unmount_intervals [of ord s] by simp

lemma mounted_teardown: "mounted (teardown s) = mounted s"
  by (simp add: teardown_def runCameraCleanup_frame runDetectionCleanup_frame)

lemma step_Unmount: "step (Unmount ord) s = (if mounted s then unmount ord s else s)"
  by (simp add: step_def rerender_unmounted rerender_same_deps unmount_frame)

subsection \<open>Teardown of an attached stream\<close>

lemma stopTracks_idem: "stopTracks h (stopTracks h ss) = stopTracks h ss"
  by (simp add: stopTracks_def comp_def)

lemma runCameraCleanup_idem: "runCameraCleanup (runCameraCleanup s) = runCameraCleanup s"
  by (cases "cameraCleanup s"; cases "videoRef s"; cases "srcObject s"; cases "mounted s")
    (simp_all add: runCameraCleanup_def cameraEffectCleanup_def setIsStreaming_def stopTracks_idem)

lemma runDetectionCleanup_idem: "runDetectionCleanup (runDetectionCleanup s) = runDetectionCleanup s"
  by (cases "detectionCleanup s"; cases "detectionIntervalRef s")
    (simp_all add: runDetectionCleanup_def detectionEffectCleanup_def)

lemma cleanups_commute:
  "runCameraCleanup (runDetectionCleanup s) = runDetectionCleanup (runCameraCleanup s)"
  by (cases "cameraCleanup s"; cases "videoRef s"; cases "srcObject s"; cases "mounted s";
      cases "detectionCleanup s"; cases "detectionIntervalRef s")
    (simp_all add: runCameraCleanup_def cameraEffectCleanup_def setIsStreaming_def
      runDetectionCleanup_def detectionEffectCleanup_def)

text \<open>Running the cleanups twice is running them once.\<close>

lemma teardown_idempotent: "teardown (teardown s) = teardown s"
proof -
  have "teardown (teardown s) =
        runDetectionCleanup (runCameraCleanup (runDetectionCleanup (runCameraCleanup s)))"
    by (simp only: teardown_def)
  also have "\<dots> = runDetectionCleanup (runDetectionCleanup (runCameraCleanup (runCameraCleanup s)))"
    by (simp only: cleanups_commute)
  also have "\<dots> = teardown s"
    by (simp only: runCameraCleanup_idem runDetectionCleanup_idem teardown_def)
  finally show ?thesis .
qed

text \<open>A stream the video element holds is stopped, and the timer the ref names is cleared.\<close>

lemma teardown_stops_attached_stream:
  "cameraCleanup s \<Longrightarrow> videoRef s \<Longrightarrow> srcObject s = Some h \<Longrightarrow> h < length (streams s) \<Longrightarrow>
     set (streams (teardown s) ! h) \<subseteq> {Ended}"
  by (auto simp add: teardown_def runDetectionCleanup_frame runCameraCleanup_streams stopTracks_def)

lemma teardown_clears_timer:
  "detectionCleanup s \<Longrightarrow> detectionIntervalRef s = Some i \<Longrightarrow> 0 < i \<Longrightarrow>
     i \<notin> set (intervals (teardown s))"
  by (simp add: teardown_def runDetectionCleanup_intervals runCameraCleanup_frame)

subsection \<open>Output only grows\<close>

lemma outputs_effects:
  "outputs (cameraEffect b s) = outputs s"
  "outputs (detectionEffect b c s) = outputs s"
  by (simp_all add: cameraEffect_def detectionEffect_def Let_def)

lemma outputs_commit: "outputs (commit p s) = outputs s"
  by (simp add: commit_def Let_def outputs_effects runCameraCleanup_frame runDetectionCleanup_frame)

lemma outputs_rerender: "outputs (rerender p s) = outputs s"
  by (simp add: rerender_def Let_def outputs_commit)

lemma outputs_ModelsResolve: "\<exists>new. outputs (step ModelsResolve s) = outputs s @ new"
  by (simp add: step_def outputs_rerender loadModels_resolved_def setModelsLoaded_def emit_def)

lemma outputs_LoadedMetadata: "\<exists>new. outputs (step (LoadedMetadata w h) s) = outputs s @ new"
  by (simp add: step_def outputs_rerender onloadedmetadata_def setIsStreaming_def Let_def)

lemma outputs_DetectionSettles: "\<exists>new. outputs (step (DetectionSettles r) s) = outputs s @ new"
  by (cases r) (simp_all add: step_DetectionSettles detectFaces_resume_Rejected detectFaces_resume_Resolved)

lemma outputs_Capture: "\<exists>new. outputs (step (Capture enc t) s) = outputs s @ new"
  by (simp add: step_Capture handleCapture_def emit_def Let_def split: encoded.split)

lemma outputs_step: "\<exists>new. outputs (step e s) = outputs s @ new"
  by (cases e) (simp_all add: outputs_ModelsResolve outputs_LoadedMetadata outputs_DetectionSettles
       outputs_Capture step_ModelsReject loadModels_rejected_def emit_def step_StreamResolve
       startCamera_resolved_def startCamera_rejected_def Let_def step_StreamReject step_Tick
       step_Unmount unmount_frame)

lemma outputs_step_mono: "x \<in> set (outputs s) \<Longrightarrow> x \<in> set (outputs (step e s))"
  using outputs_step [of e s] by auto

lemma outputs_run_mono: "x \<in> set (outputs s) \<Longrightarrow> x \<in> set (outputs (run es s))"
  by (induction es arbitrary: s) (simp_all add: run_Nil run_Cons outputs_step_mono)

subsection \<open>The invariant of reachable states\<close>

lemma setupInv_mount: "setupInv (mount initial)"
  by (simp add: setupInv_def mount_def initial_def loadModelsEffect_def cameraEffect_def detectionEffect_def)

lemma setupInv_ModelsResolve: "setupInv s \<Longrightarrow> setupInv (step ModelsResolve s)"
proof (cases "loadPending s")
  case False
  assume "setupInv s" with False show ?thesis by (simp add: step_ModelsResolve_idle)
next
  case pending: True
  assume w: "setupInv s"
  show ?thesis
  proof (cases "modelsLoaded s")
    case True
    with w pending show ?thesis by (auto simp add: step_ModelsResolve_loaded setupInv_def)
  next
    case notLoaded: False
    show ?thesis
    proof (cases "mounted s")
      case False
      with w pending notLoaded show ?thesis
        by (auto simp add: step_ModelsResolve_unmounted setupInv_def)
    next
      case True
      from w notLoaded have "\<not> isStreaming s" "\<not> cameraCleanup s" "\<not> detectionCleanup s"
        by (auto simp: setupInv_def)
      with w pending notLoaded True show ?thesis
        by (auto simp add: step_ModelsResolve_first setupInv_def)
    qed
  qed
qed

lemma setupInv_LoadedMetadata: "setupInv s \<Longrightarrow> setupInv (step (LoadedMetadata w h) s)"
proof (cases "metadataPending s")
  case False
  assume "setupInv s" with False show ?thesis by (simp add: step_LoadedMetadata_idle)
next
  case pending: True
  assume w: "setupInv s"
  show ?thesis
  proof (cases "mounted s \<and> videoRef s")
    case False
    with w pending show ?thesis by (auto simp add: step_LoadedMetadata_no_video setupInv_def)
  next
    case True
    from w pending have "modelsLoaded s" "\<not> isStreaming s" "\<not> detectionCleanup s"
      by (auto simp: setupInv_def)
    with w pending True show ?thesis
      by (auto simp add: step_LoadedMetadata_first setupInv_def)
  qed
qed

lemma setupInv_Unmount: "setupInv s \<Longrightarrow> setupInv (step (Unmount ord) s)"
  by (auto simp add: step_Unmount setupInv_def unmount_frame unmount_no_intervals)

lemma setupInv_ModelsReject: "setupInv s \<Longrightarrow> setupInv (step ModelsReject s)"
  by (auto simp add: step_ModelsReject setupInv_def loadModels_rejected_def emit_def)

lemma setupInv_StreamResolve: "setupInv s \<Longrightarrow> setupInv (step (StreamResolve n) s)"
  by (auto simp add: step_StreamResolve setupInv_def startCamera_resolved_def Let_def)

lemma setupInv_StreamReject: "setupInv s \<Longrightarrow> setupInv (step StreamReject s)"
  by (auto simp add: step_StreamReject setupInv_def startCamera_rejected_def emit_def)

lemma setupInv_Tick: "setupInv s \<Longrightarrow> setupInv (step (Tick i) s)"
  by (auto simp add: step_Tick setupInv_def)

lemma setupInv_DetectionSettles: "setupInv s \<Longrightarrow> setupInv (step (DetectionSettles r) s)"
  by (cases r)
    (auto simp add: step_DetectionSettles detectFaces_resume_Rejected detectFaces_resume_Resolved
      setupInv_def)

lemma setupInv_Capture: "setupInv s \<Longrightarrow> setupInv (step (Capture enc t) s)"
proof -
  assume w: "setupInv s"
  have "step (Capture enc t) s = s\<lparr>outputs := outputs (handleCapture enc t s)\<rparr>"
    by (rule step_Capture_outputs)
  with w show ?thesis by (auto simp add: setupInv_def)
qed

lemma setupInv_step: "setupInv s \<Longrightarrow> setupInv (step e s)"
  by (cases e) (simp_all add: setupInv_ModelsResolve setupInv_ModelsReject setupInv_StreamResolve
      setupInv_StreamReject setupInv_LoadedMetadata setupInv_Tick setupInv_DetectionSettles
      setupInv_Capture setupInv_Unmount)

lemma setupInv_run: "setupInv s \<Longrightarrow> setupInv (run es s)"
  by (induction es arbitrary: s) (simp_all add: run_Nil run_Cons setupInv_step)

subsection \<open>States that no event leaves\<close>

lemma cameraDenied_step: "cameraDenied s \<Longrightarrow> cameraDenied (step e s)"
proof (cases e)
  case ModelsResolve
  assume "cameraDenied s"
  then show ?thesis unfolding ModelsResolve
    by (cases "loadPending s")
      (simp_all add: step_ModelsResolve_idle step_ModelsResolve_loaded cameraDenied_def)
next
  case (DetectionSettles r)
  assume "cameraDenied s"
  then show ?thesis unfolding DetectionSettles
    by (cases r)
      (simp_all add: step_DetectionSettles detectFaces_resume_Rejected detectFaces_resume_Resolved
        cameraDenied_def)
qed (simp_all add: cameraDenied_def step_ModelsReject loadModels_rejected_def emit_def
       step_StreamResolve step_StreamReject step_LoadedMetadata_idle step_Tick step_Capture_outputs
       step_Unmount unmount_frame unmount_no_intervals)

lemma loadFailed_step: "loadFailed s \<Longrightarrow> loadFailed (step e s)"
proof (cases e)
  case (DetectionSettles r)
  assume "loadFailed s"
  then show ?thesis unfolding DetectionSettles
    by (cases r)
      (simp_all add: step_DetectionSettles detectFaces_resume_Rejected detectFaces_resume_Resolved
        loadFailed_def)
qed (simp_all add: loadFailed_def step_ModelsResolve_idle step_ModelsReject loadModels_rejected_def
       emit_def step_StreamResolve step_StreamReject step_LoadedMetadata_idle step_Tick
       step_Capture_outputs step_Unmount unmount_frame unmount_no_intervals)

lemma cameraDenied_run: "cameraDenied s \<Longrightarrow> cameraDenied (run es s)"
  by (induction es arbitrary: s) (simp_all add: run_Nil run_Cons cameraDenied_step)

lemma loadFailed_run: "loadFailed s \<Longrightarrow> loadFailed (run es s)"
  by (induction es arbitrary: s) (simp_all add: run_Nil run_Cons loadFailed_step)

lemma dead_step_dead: "dead s \<Longrightarrow> dead (step e s)"
  by (cases e) (simp_all add: dead_def step_ModelsResolve_idle step_ModelsReject step_StreamResolve
      step_StreamReject step_LoadedMetadata_idle step_Tick step_DetectionSettles step_Capture_outputs
      step_Unmount)

lemma dead_step_streams: "dead s \<Longrightarrow> streams (step e s) = streams s"
  by (cases e) (simp_all add: dead_def step_ModelsResolve_idle step_ModelsReject step_StreamResolve
      step_StreamReject step_LoadedMetadata_idle step_Tick step_DetectionSettles step_Capture_outputs
      step_Unmount)

lemma dead_run_streams: "dead s \<Longrightarrow> streams (run es s) = streams s"
  by (induction es arbitrary: s) (simp_all add: run_Nil run_Cons dead_step_dead dead_step_streams)

subsection \<open>The sample executions, evaluated\<close>

lemma initial_fields:
  "faceDetected initial = False" "facesCount initial = 0" "modelsLoaded initial = False"
  "isStreaming initial = False" "faceQuality initial = NoQuality"
  "detectionIntervalRef initial = None" "videoRef initial = False"
  "displayCanvasRef initial = False" "srcObject initial = None"
  "metadataPending initial = False" "videoWidth initial = 0" "videoHeight initial = 0"
  "mounted initial = False" "loadPending initial = False" "cameraPending initial = 0"
  "cameraRequests initial = 0" "streams initial = []" "intervals initial = []"
  "timersStarted initial = 0" "inflight initial = 0" "cameraCleanup initial = False"
  "detectionCleanup initial = False" "outputs initial = []"
  by (simp_all add: initial_def)

lemma mount_initial:
  "mount initial = initial\<lparr>mounted := True, loadPending := True\<rparr>"
  by (simp add: mount_def initial_fields loadModelsEffect_def cameraEffect_def detectionEffect_def)

lemma loaded_state:
  "step ModelsResolve (mount initial) =
     initial\<lparr>mounted := True, modelsLoaded := True, videoRef := True, displayCanvasRef := True,
       cameraPending := 1, cameraRequests := 1, cameraCleanup := True,
       outputs := [ConsoleLog ''All face detection models loaded'']\<rparr>"
  by (simp add: mount_initial step_ModelsResolve_first initial_fields)

lemma streaming_state:
  "streaming =
     initial\<lparr>mounted := True, modelsLoaded := True, isStreaming := True,
       detectionIntervalRef := Some 1, videoRef := True, displayCanvasRef := True,
       srcObject := Some 0, videoWidth := 640, videoHeight := 480, cameraRequests := 1,
       streams := [[Live]], intervals := [1], timersStarted := 1, cameraCleanup := True,
       detectionCleanup := True,
       outputs := [ConsoleLog ''All face detection models loaded'']\<rparr>"
  by (simp add: streaming_def run_Cons run_Nil loaded_state initial_fields
      step_StreamResolve startCamera_resolved_def Let_def step_LoadedMetadata_first)

lemma streaming_fields:
  "mounted streaming" "videoRef streaming" "displayCanvasRef streaming"
  "intervals streaming = [1]" "inflight streaming = 0" "videoWidth streaming = 640"
  "videoHeight streaming = 480" "faceQuality streaming = NoQuality"
  by (simp_all add: streaming_state initial_fields)

lemma polling_state: "polling = streaming\<lparr>inflight := 1\<rparr>"
  by (simp add: polling_def run_Cons run_Nil step_Tick streaming_fields)

lemma polling_fields:
  "mounted polling" "videoRef polling" "displayCanvasRef polling"
  "intervals polling = [1]" "inflight polling = 1" "videoWidth polling = 640"
  "videoHeight polling = 480" "faceQuality polling = NoQuality"
  "outputs polling = [ConsoleLog ''All face detection models loaded'']"
  by (simp_all add: polling_state streaming_fields) (simp add: streaming_state initial_fields)

lemma face_labels:
  "qualityLabel (facePercentage (box (face 100 100)) 640 480) = MoveCloser"
  "qualityLabel (facePercentage (box (face 300 300)) 640 480) = GoodPositioning"
  by (simp_all add: qualityLabel_def facePercentage_def face_def)

text \<open>
  Unmounting while streaming: the stream is stopped when the cleanups run before the refs
  are detached, and left live when they run after.
\<close>

lemma unmount_streaming:
  "streams (step (Unmount CleanupThenDetach) streaming) = [[Ended]]"
  "streams (step (Unmount DetachThenCleanup) streaming) = [[Live]]"
  "intervals (step (Unmount ord) streaming) = []"
  by (cases ord; simp add: step_Unmount unmount_def teardown_def detachRefs_def Let_def
        runCameraCleanup_def runDetectionCleanup_def cameraEffectCleanup_def
        detectionEffectCleanup_def setIsStreaming_def stopTracks_def streaming_state
        initial_fields)+

lemma leak_state:
  "run [ModelsResolve, Unmount ord, StreamResolve 1] (mount initial) =
     initial\<lparr>modelsLoaded := True, cameraRequests := 1, streams := [[Live]],
       cameraCleanup := True,
       outputs := [ConsoleLog ''All face detection models loaded'']\<rparr>"
  by (cases ord) (simp_all add: run_Cons run_Nil loaded_state initial_fields
      step_Unmount unmount_def teardown_def detachRefs_def
      runCameraCleanup_def runDetectionCleanup_def cameraEffectCleanup_def
      step_StreamResolve startCamera_resolved_def Let_def)

section \<open>Properties of the component\<close>




text \<open>
  C2. When a poll of the mounted component gets its detection result, \<^verbatim>\<open>faceDetected\<close>
  afterwards says whether the result is non-empty: false for no face record, true for one
  or more.
\<close>

theorem poll_sets_faceDetected:
  "mounted s \<Longrightarrow> 0 < inflight s \<Longrightarrow>
     faceDetected (step (DetectionSettles (Resolved ds)) s) = (ds \<noteq> [])"
  by (simp add: step_DetectionSettles detectFaces_resume_Resolved)

theorem poll_sets_faceDetected_witness:
  "mounted polling \<and> 0 < inflight polling \<and>
   faceDetected (step (DetectionSettles (Resolved [face 300 300])) polling) \<and>
   \<not> faceDetected (step (DetectionSettles (Resolved [])) polling)"
  using poll_sets_faceDetected [of polling "[face 300 300]"] poll_sets_faceDetected [of polling "[]"]
  by (simp add: polling_fields)

text \<open>
  C3, as the code has it. The label is a function of \<^verbatim>\<open>facePercentage\<close> alone. At 14.9 and
  at 15.0 it is "move closer", at 79.9 "good positioning", at 80.0 "move back": the bound
  15 belongs to "move closer", "good positioning" is strictly between 15 and 80, and 80
  belongs to "move back".
\<close>

theorem qualityLabel_boundaries:
  "qualityLabel (Fin 14.9) = MoveCloser \<and> qualityLabel (Fin 15.0) = MoveCloser \<and>
   qualityLabel (Fin 79.9) = GoodPositioning \<and> qualityLabel (Fin 80.0) = MoveBack \<and>
   (\<forall>p. qualityLabel (Fin p) =
      (if p \<le> 15 then MoveCloser else if p < 80 then GoodPositioning else MoveBack))"
  by (simp add: qualityLabel_def)

text \<open>C3 as stated asks for "good positioning" at 15.0; the code answers "move closer".\<close>

theorem qualityLabel_15_counterexample:
  "qualityLabel (Fin 15.0) \<noteq> GoodPositioning \<and> qualityLabel (Fin 15.0) = MoveCloser"
  by (simp add: qualityLabel_def)

text \<open>
  C4 at the input where the code fails it. The models load, so the camera is requested;
  the component is unmounted while \<^verbatim>\<open>getUserMedia\<close> is still pending, and the cleanup finds
  no \<^verbatim>\<open>srcObject\<close> to stop; then \<^verbatim>\<open>getUserMedia\<close> resolves with a stream of one live track.
  The ref is null by then, so the stream is attached to nothing, and its track stays live
  whatever happens afterwards, in either order of detaching refs and running cleanups.
\<close>

theorem teardown_while_camera_starting_leaks:
  "streams (run ([ModelsResolve, Unmount ord, StreamResolve 1] @ es) (mount initial)) = [[Live]] \<and>
   \<not> mounted (run [ModelsResolve, Unmount ord, StreamResolve 1] (mount initial)) \<and>
   srcObject (run [ModelsResolve, Unmount ord, StreamResolve 1] (mount initial)) = None"
proof -
  let ?s = "run [ModelsResolve, Unmount ord, StreamResolve 1] (mount initial)"
  have d: "dead ?s" unfolding leak_state by (simp add: dead_def initial_fields)
  have "streams (run es ?s) = streams ?s" using d by (rule dead_run_streams)
  then have "streams (run ([ModelsResolve, Unmount ord, StreamResolve 1] @ es) (mount initial)) =
      streams ?s"
    by (simp only: run_append)
  moreover have "streams ?s = [[Live]]" "\<not> mounted ?s" "srcObject ?s = None"
    unfolding leak_state by (simp_all add: initial_fields)
  ultimately show ?thesis by simp
qed

text \<open>
  C5. In every execution in which the model load rejects, no camera stream is ever
  requested: the alert is raised, \<^verbatim>\<open>modelsLoaded\<close> stays false, and neither
  \<^verbatim>\<open>getUserMedia\<close> nor \<^verbatim>\<open>setInterval\<close> is ever called, whatever events follow. In every
  execution in which the camera request rejects, the poll timer is never started: the
  alert is raised, \<^verbatim>\<open>isStreaming\<close> stays false and no timer exists, whatever events
  follow. \<open>es1\<close> are the events before the rejection and \<open>es2\<close> those after it; a promise
  rejects only while it is pending, which is the hypothesis of each part.
\<close>

theorem setup_failure_blocks_streaming:
  "(loadPending (run es1 (mount initial)) \<longrightarrow>
      cameraRequests (run (es1 @ ModelsReject # es2) (mount initial)) = 0 \<and>
      \<not> modelsLoaded (run (es1 @ ModelsReject # es2) (mount initial)) \<and>
      timersStarted (run (es1 @ ModelsReject # es2) (mount initial)) = 0 \<and>
      Alert ''Failed to load face detection models. Please refresh the page.''
        \<in> set (outputs (run (es1 @ ModelsReject # es2) (mount initial)))) \<and>
   (0 < cameraPending (run es1 (mount initial)) \<longrightarrow>
      timersStarted (run (es1 @ StreamReject # es2) (mount initial)) = 0 \<and>
      intervals (run (es1 @ StreamReject # es2) (mount initial)) = [] \<and>
      \<not> isStreaming (run (es1 @ StreamReject # es2) (mount initial)) \<and>
      Alert ''Please allow camera access to use this app.''
        \<in> set (outputs (run (es1 @ StreamReject # es2) (mount initial))))"
proof (intro conjI impI)
  let ?s = "run es1 (mount initial)"
  have w: "setupInv ?s" by (simp add: setupInv_run setupInv_mount)
  {
    assume p: "loadPending ?s"
    let ?t = "step ModelsReject ?s"
    from w p have f: "loadFailed ?t"
      by (auto simp add: setupInv_def loadFailed_def step_ModelsReject loadModels_rejected_def emit_def)
    from p have a: "Alert ''Failed to load face detection models. Please refresh the page.''
        \<in> set (outputs ?t)"
      by (simp add: step_ModelsReject loadModels_rejected_def emit_def)
    have r: "run (es1 @ ModelsReject # es2) (mount initial) = run es2 ?t"
      by (simp add: run_append run_Cons)
    from f have "loadFailed (run es2 ?t)" by (rule loadFailed_run)
    with r show "cameraRequests (run (es1 @ ModelsReject # es2) (mount initial)) = 0"
      and "\<not> modelsLoaded (run (es1 @ ModelsReject # es2) (mount initial))"
      and "timersStarted (run (es1 @ ModelsReject # es2) (mount initial)) = 0"
      by (simp_all add: loadFailed_def)
    from a r show "Alert ''Failed to load face detection models. Please refresh the page.''
        \<in> set (outputs (run (es1 @ ModelsReject # es2) (mount initial)))"
      by (simp add: outputs_run_mono)
  }
  {
    assume p: "0 < cameraPending ?s"
    let ?t = "step StreamReject ?s"
    from w p have f: "cameraDenied ?t"
      by (auto simp add: setupInv_def cameraDenied_def step_StreamReject startCamera_rejected_def emit_def)
    from p have a: "Alert ''Please allow camera access to use this app.'' \<in> set (outputs ?t)"
      by (simp add: step_StreamReject startCamera_rejected_def emit_def)
    have r: "run (es1 @ StreamReject # es2) (mount initial) = run es2 ?t"
      by (simp add: run_append run_Cons)
    from f have "cameraDenied (run es2 ?t)" by (rule cameraDenied_run)
    with r show "timersStarted (run (es1 @ StreamReject # es2) (mount initial)) = 0"
      and "intervals (run (es1 @ StreamReject # es2) (mount initial)) = []"
      and "\<not> isStreaming (run (es1 @ StreamReject # es2) (mount initial))"
      by (simp_all add: cameraDenied_def)
    from a r show "Alert ''Please allow camera access to use this app.''
        \<in> set (outputs (run (es1 @ StreamReject # es2) (mount initial)))"
      by (simp add: outputs_run_mono)
  }
qed

text \<open>
  The load rejects at once and the later events (a late resolution among them) request no
  camera; the camera is refused after the models loaded, and the later events start no
  timer.
\<close>

theorem setup_failure_blocks_streaming_witness:
  "loadPending (run [] (mount initial)) \<and>
   cameraRequests (run ([] @ ModelsReject # [ModelsResolve, StreamResolve 1, LoadedMetadata 640 480, Tick 1])
      (mount initial)) = 0 \<and>
   0 < cameraPending (run [ModelsResolve] (mount initial)) \<and>
   timersStarted (run ([ModelsResolve] @ StreamReject # [StreamResolve 1, LoadedMetadata 640 480, Tick 1])
      (mount initial)) = 0"
proof -
  have h1: "loadPending (run [] (mount initial))"
    by (simp add: run_Nil mount_initial)
  have h2: "0 < cameraPending (run [ModelsResolve] (mount initial))"
    by (simp add: run_Cons run_Nil loaded_state)
  note a = setup_failure_blocks_streaming
    [of "[]" "[ModelsResolve, StreamResolve 1, LoadedMetadata 640 480, Tick 1]",
      THEN conjunct1, rule_format, OF h1]
  note b = setup_failure_blocks_streaming
    [of "[ModelsResolve]" "[StreamResolve 1, LoadedMetadata 640 480, Tick 1]",
      THEN conjunct2, rule_format, OF h2]
  from h1 h2 a b show ?thesis by blast
qed

text \<open>
  C6. A poll whose detection call rejects is caught inside that poll: it prints the error,
  writes no state, and leaves the timer running. The next tick of the timer starts a poll
  as before, and that poll's result is written as usual.
\<close>

theorem poll_rejection_keeps_polling:
  assumes "0 < inflight s" and "i \<in> set (intervals s)" and "videoRef s" and "displayCanvasRef s"
    and "mounted s"
  shows "step (DetectionSettles Rejected) s =
           s\<lparr>inflight := inflight s - 1,
             outputs := outputs s @ [ConsoleError ''Detection error:'']\<rparr> \<and>
         i \<in> set (intervals (step (DetectionSettles Rejected) s)) \<and>
         inflight (step (Tick i) (step (DetectionSettles Rejected) s)) =
           Suc (inflight (step (DetectionSettles Rejected) s)) \<and>
         faceDetected (run [DetectionSettles Rejected, Tick i, DetectionSettles (Resolved ds)] s) =
           (ds \<noteq> []) \<and>
         facesCount (run [DetectionSettles Rejected, Tick i, DetectionSettles (Resolved ds)] s) =
           length ds"
  using assms
  by (simp add: run_Cons run_Nil step_DetectionSettles detectFaces_resume_Rejected step_Tick
      detectFaces_resume_Resolved)

theorem poll_rejection_keeps_polling_witness:
  "0 < inflight polling \<and> 1 \<in> set (intervals polling) \<and> videoRef polling \<and>
   displayCanvasRef polling \<and> mounted polling \<and>
   inflight (step (DetectionSettles Rejected) polling) = 0 \<and>
   outputs (step (DetectionSettles Rejected) polling) =
     [ConsoleLog ''All face detection models loaded'', ConsoleError ''Detection error:''] \<and>
   inflight (step (Tick 1) (step (DetectionSettles Rejected) polling)) = 1 \<and>
   faceDetected
     (run [DetectionSettles Rejected, Tick 1, DetectionSettles (Resolved [face 300 300])] polling) \<and>
   facesCount
     (run [DetectionSettles Rejected, Tick 1, DetectionSettles (Resolved [face 300 300])] polling) = 1"
proof -
  have h: "0 < inflight polling" "1 \<in> set (intervals polling)" "videoRef polling"
    "displayCanvasRef polling" "mounted polling"
    by (simp_all add: polling_fields)
  note t = poll_rejection_keeps_polling [OF h, of "[face 300 300]"]
  from t have a: "step (DetectionSettles Rejected) polling =
      polling\<lparr>inflight := inflight polling - 1,
        outputs := outputs polling @ [ConsoleError ''Detection error:'']\<rparr>"
    by (rule conjunct1)
  have b: "inflight (step (DetectionSettles Rejected) polling) = 0"
    "outputs (step (DetectionSettles Rejected) polling) =
       [ConsoleLog ''All face detection models loaded'', ConsoleError ''Detection error:'']"
    by (simp_all add: a polling_fields)
  from t have "inflight (step (Tick 1) (step (DetectionSettles Rejected) polling)) =
      Suc (inflight (step (DetectionSettles Rejected) polling))"
    by (elim conjE)
  then have c: "inflight (step (Tick 1) (step (DetectionSettles Rejected) polling)) = 1"
    by (simp add: b)
  from t have d: "faceDetected
       (run [DetectionSettles Rejected, Tick 1, DetectionSettles (Resolved [face 300 300])] polling)"
    "facesCount
       (run [DetectionSettles Rejected, Tick 1, DetectionSettles (Resolved [face 300 300])] polling) = 1"
    by simp_all
  from h b c d show ?thesis by (intro conjI)
qed

text \<open>
  C7. \<^verbatim>\<open>handleCapture\<close> changes nothing but what the component has printed, alerted and
  handed to \<^verbatim>\<open>onCapture\<close>: the detection state, the timer, its ref, the stream and the
  calls under way are as before, no effect runs after it, and the next tick of the timer
  does what it would have done without the capture.
\<close>

theorem handleCapture_frame:
  "handleCapture enc t s = s\<lparr>outputs := outputs (handleCapture enc t s)\<rparr> \<and>
   step (Capture enc t) s = handleCapture enc t s \<and>
   faceDetected (step (Capture enc t) s) = faceDetected s \<and>
   facesCount (step (Capture enc t) s) = facesCount s \<and>
   faceQuality (step (Capture enc t) s) = faceQuality s \<and>
   intervals (step (Capture enc t) s) = intervals s \<and>
   detectionIntervalRef (step (Capture enc t) s) = detectionIntervalRef s \<and>
   srcObject (step (Capture enc t) s) = srcObject s \<and>
   streams (step (Capture enc t) s) = streams s \<and>
   inflight (step (Capture enc t) s) = inflight s \<and>
   step (Tick i) (step (Capture enc t) s) =
     (step (Tick i) s)\<lparr>outputs := outputs (handleCapture enc t s)\<rparr>"
proof -
  have a: "handleCapture enc t s = s\<lparr>outputs := outputs (handleCapture enc t s)\<rparr>"
    by (rule handleCapture_outputs)
  have b: "step (Capture enc t) s = s\<lparr>outputs := outputs (handleCapture enc t s)\<rparr>"
    by (rule step_Capture_outputs)
  have c: "step (Tick i) (s\<lparr>outputs := out\<rparr>) = (step (Tick i) s)\<lparr>outputs := out\<rparr>" for out
    by (simp add: step_Tick)
  have d: "step (Tick i) (step (Capture enc t) s) =
      (step (Tick i) s)\<lparr>outputs := outputs (handleCapture enc t s)\<rparr>"
    by (simp only: b c)
  have e: "faceDetected (step (Capture enc t) s) = faceDetected s"
    "facesCount (step (Capture enc t) s) = facesCount s"
    "faceQuality (step (Capture enc t) s) = faceQuality s"
    "intervals (step (Capture enc t) s) = intervals s"
    "detectionIntervalRef (step (Capture enc t) s) = detectionIntervalRef s"
    "srcObject (step (Capture enc t) s) = srcObject s"
    "streams (step (Capture enc t) s) = streams s"
    "inflight (step (Capture enc t) s) = inflight s"
    by (simp_all add: b)
  from a d e show ?thesis by (simp only: step_Capture simp_thms)
qed

text \<open>
  C8, as the code has it. When a poll of the mounted component gets one or more face
  records, the quality label afterwards is the label of the last record of the sequence:
  the loop sets the label for every record in turn.
\<close>

theorem poll_quality_is_last_face:
  "mounted s \<Longrightarrow> 0 < inflight s \<Longrightarrow> ds \<noteq> [] \<Longrightarrow>
     faceQuality (step (DetectionSettles (Resolved ds)) s) =
       qualityLabel (facePercentage (box (last ds)) (videoWidth s) (videoHeight s))"
  by (simp add: step_DetectionSettles detectFaces_resume_Resolved)

theorem poll_quality_is_last_face_witness:
  "mounted polling \<and> 0 < inflight polling \<and> [face 100 100, face 300 300] \<noteq> [] \<and>
   faceQuality (step (DetectionSettles (Resolved [face 100 100, face 300 300])) polling) =
     GoodPositioning"
  using poll_quality_is_last_face [of polling "[face 100 100, face 300 300]"]
  by (simp add: polling_fields face_labels)

text \<open>
  C8 as stated fails for a small face followed by a well placed one: the label after the
  poll is "good positioning", that of the first face is "move closer".
\<close>

theorem poll_quality_first_face_counterexample:
  "faceQuality (step (DetectionSettles (Resolved [face 100 100, face 300 300])) polling) =
     GoodPositioning \<and>
   qualityLabel (facePercentage (box (hd [face 100 100, face 300 300]))
     (videoWidth polling) (videoHeight polling)) = MoveCloser"
  by (simp add: step_DetectionSettles detectFaces_resume_Resolved polling_fields face_labels)

text \<open>
  C9, as the code has it. A poll of the mounted component that gets its result sets the
  face count to the number of records. It sets the quality label only when there is a
  record; on an empty result the label keeps the value it had.
\<close>

theorem poll_recomputes_count_not_quality:
  "mounted s \<Longrightarrow> 0 < inflight s \<Longrightarrow>
     facesCount (step (DetectionSettles (Resolved ds)) s) = length ds \<and>
     faceQuality (step (DetectionSettles (Resolved ds)) s) =
       (if ds = [] then faceQuality s
        else qualityLabel (facePercentage (box (last ds)) (videoWidth s) (videoHeight s)))"
  by (simp add: step_DetectionSettles detectFaces_resume_Resolved)

theorem poll_recomputes_count_not_quality_witness:
  "mounted polling \<and> 0 < inflight polling \<and>
   facesCount (step (DetectionSettles (Resolved [])) polling) = 0 \<and>
   faceQuality (step (DetectionSettles (Resolved [])) polling) = faceQuality polling \<and>
   facesCount (step (DetectionSettles (Resolved [face 300 300])) polling) = 1 \<and>
   faceQuality (step (DetectionSettles (Resolved [face 300 300])) polling) = GoodPositioning"
  using poll_recomputes_count_not_quality [of polling "[]"]
    poll_recomputes_count_not_quality [of polling "[face 300 300]"]
  by (simp add: polling_fields face_labels)

text \<open>
  C9 as stated fails when a poll with a face is followed by a poll without one: the count
  goes to 0 and the label is still that of the earlier poll.
\<close>

theorem stale_quality_counterexample:
  "faceQuality (run [DetectionSettles (Resolved [face 300 300])] polling) = GoodPositioning \<and>
   faceQuality (run [DetectionSettles (Resolved [face 300 300]), Tick 1,
                     DetectionSettles (Resolved [])] polling) = GoodPositioning \<and>
   facesCount (run [DetectionSettles (Resolved [face 300 300]), Tick 1,
                    DetectionSettles (Resolved [])] polling) = 0"
  by (simp add: run_Cons run_Nil step_DetectionSettles detectFaces_resume_Resolved step_Tick
      polling_fields face_labels)

text \<open>
  C10, as the code has it. Every tick of a running timer starts a detection call, whether
  or not earlier calls have returned: nothing is skipped or coalesced. A call that
  resolves writes the label, the count and \<^verbatim>\<open>faceDetected\<close> in one step, all three from its
  own result.
\<close>

theorem ticks_start_overlapping_polls:
  assumes "i \<in> set (intervals s)" and "videoRef s" and "displayCanvasRef s" and "mounted s"
  shows "inflight (step (Tick i) s) = Suc (inflight s) \<and>
         step (DetectionSettles (Resolved ds)) (step (Tick i) s) =
           s\<lparr>faceQuality :=
                (if ds = [] then faceQuality s
                 else qualityLabel (facePercentage (box (last ds)) (videoWidth s) (videoHeight s))),
             facesCount := length ds, faceDetected := (ds \<noteq> [])\<rparr>"
  using assms by (simp add: step_Tick step_DetectionSettles detectFaces_resume_Resolved)

theorem ticks_start_overlapping_polls_witness:
  "1 \<in> set (intervals polling) \<and> videoRef polling \<and> displayCanvasRef polling \<and> mounted polling \<and>
   inflight polling = 1 \<and> inflight (step (Tick 1) polling) = 2 \<and>
   facesCount (step (DetectionSettles (Resolved [face 300 300])) (step (Tick 1) polling)) = 1"
  using ticks_start_overlapping_polls [of 1 polling "[face 300 300]"]
  by (simp add: polling_fields)

text \<open>
  C10 as stated fails on two ticks in a row: the first call has not returned when the
  second tick fires, and the second call is started all the same.
\<close>

theorem overlapping_polls_counterexample:
  "inflight (run [Tick 1] streaming) = 1 \<and> inflight (run [Tick 1, Tick 1] streaming) = 2"
  by (simp add: run_Cons run_Nil step_Tick streaming_fields)

end
